theory Spec2Isabelle
  imports Complex_Main "HOL-Library.AList"
begin

section \<open>The dashboard of Apps/app.py: credentials, pool, queries, callbacks\<close>

text \<open>
  The module keeps five globals (lines 18 to 22) and reads and writes the process
  environment. Every call it makes to the outside (the Databricks SDK, the clock, the
  connection pool, the database, the chat-completion endpoint) is answered by a field
  of the record \<open>world\<close>; what the code does to the outside is appended to the field
  \<open>effects\<close> of the state. Exceptions are values: a \<open>try\<close> block is a function into a
  sum type and its handlers are the \<open>case\<close> on it. The \<open>print\<close> calls are left out.
  \<open>time.time()\<close> is a float in Python; clock readings are reals here.
\<close>

subsection \<open>Values\<close>

datatype client = WorkspaceClient

text \<open>\<open>ConnectionPool(conn_string, min_size=2, max_size=10)\<close>.\<close>

datatype pool = ConnectionPool string nat nat

text \<open>A connection remembers the pool it was taken from.\<close>

datatype connection = Connection pool

text \<open>The two \<open>except\<close> clauses of the query functions: \<open>psycopg.Error\<close>, then \<open>Exception\<close>.\<close>

datatype exn = PsycopgError string | OtherException string

text \<open>
  A column value as psycopg hands it to Python. \<open>device_name\<close> and \<open>retailer_name\<close> are
  text columns (the statements apply \<open>LOWER\<close> and \<open>IN\<close> with string parameters to them):
  \<open>string option\<close>, with \<open>None\<close> for SQL NULL.
\<close>

datatype pyval = PNone | PInt int | PStr string | PDate int

type_synonym order_row = "pyval \<times> pyval \<times> string option \<times> pyval"

type_synonym event_row = "string option \<times> pyval \<times> pyval \<times> pyval"

record order =
  order_id :: pyval
  order_date :: pyval
  device_name :: "string option"
  quantity :: pyval

record event =
  event_date :: pyval
  adverse_event_description :: pyval
  severity_level :: pyval

text \<open>A Python dict keeps insertion order: an association list with distinct keys.\<close>

type_synonym adverse_events = "(string option \<times> event list) list"

text \<open>
  The two statements the module executes. \<open>Select_orders schema\<close> is lines 197 to 202:
  \<open>SELECT order_id, order_date, device_name, quantity FROM {schema}.synced_order_table_feallstars
  WHERE LOWER(retailer_name) = LOWER(%s) LIMIT 100\<close>. \<open>Select_adverse_events schema n\<close> is lines
  241 to 246 with \<open>n\<close> placeholders: \<open>SELECT device_name, event_date, adverse_event_description,
  severity_level FROM {schema}.synced_table_adverse_events WHERE device_name IN (%s,...,%s)
  ORDER BY event_date DESC, severity_level\<close>.
\<close>

datatype sql_statement = Select_orders string | Select_adverse_events string nat

text \<open>
  What \<open>json.loads\<close> can return (it reads \<open>NaN\<close>, \<open>Infinity\<close> and \<open>-Infinity\<close> as floats
  too), and how a call of it on a string can end: with the parsed value, with a
  \<open>JSONDecodeError\<close>, or with another exception (a \<open>RecursionError\<close> on deep nesting, a
  \<open>ValueError\<close> on an integer of too many digits), given by its text.
\<close>

datatype json =
    JNull | JBool bool | JNum real | JNaN | JInfinity bool | JStr string
  | JArr "json list" | JObj "(string \<times> json) list"

datatype json_outcome = Parsed json | JSONDecodeError | Raised string

datatype effect =
    Sdk_WorkspaceClient
  | Oauth_token
  | Pool_created pool
  | Pool_closed pool
  | Pool_connection pool
  | Execute sql_statement "string list"
  | Chat_completion string string

subsection \<open>The module's state and the outside world\<close>

record app_state =
  environ :: "string \<rightharpoonup> string"
  workspace_client :: "client option"
  postgres_password :: "string option"
  last_password_refresh :: real
  connection_pool :: "pool option"
  connection_status :: "string \<times> string"
  effects :: "effect list"

text \<open>
  The answers of the outside during one call of a function of the module. Each of them is
  asked at most once per call, the clock three times (lines 127, 52 and 62).
  \<^item> \<open>new_WorkspaceClient\<close>: \<open>sdk.WorkspaceClient()\<close>, \<open>Inl\<close> the text of the exception;
  \<^item> \<open>oauth_access_token\<close>: \<open>workspace_client.config.oauth_token().access_token\<close>;
  \<^item> \<open>new_ConnectionPool\<close>, \<open>pool_connection\<close>: \<open>Some\<close> the text of the exception raised;
  \<^item> \<open>with_enter\<close>: the exception that leaves the \<open>with\<close> statements when entering
    \<open>with ... as conn\<close> or \<open>with conn.cursor()\<close> fails;
  \<^item> \<open>cursor_execute\<close>: an exception in \<open>cur.execute\<close> or \<open>cur.fetchall\<close>;
  \<^item> \<open>with_exit\<close>: an exception on leaving the two \<open>with\<close> blocks, where the cursor is
    closed, the transaction committed (rolled back after an exception) and the connection
    returned to the pool;
  \<^item> \<open>orders_matching schema p\<close>: the rows of \<open>{schema}.synced_order_table_feallstars\<close>
    with \<open>LOWER(retailer_name) = LOWER(p)\<close>, in the order the server's scan finds them;
  \<^item> \<open>adverse_events_table schema\<close>: the rows of \<open>{schema}.synced_table_adverse_events\<close>
    in the order of \<open>ORDER BY event_date DESC, severity_level\<close>;
  \<^item> \<open>set_order\<close>: the position CPython's \<open>set\<close> gives a string when it is iterated;
  \<^item> \<open>new_OpenAI\<close>: \<open>Some\<close> the text of an exception of the constructor;
  \<^item> \<open>chat_create\<close>: \<open>client.chat.completions.create\<close>, \<open>Inr\<close> the \<open>message.content\<close> of
    each element of \<open>response.choices\<close>;
  \<^item> \<open>json_loads\<close>: \<open>json.loads\<close> on a string;
  \<^item> \<open>str_strip\<close>: Python's \<open>str.strip()\<close>, which removes the leading and trailing
    characters that \<open>str.isspace\<close> accepts. Nothing is assumed of it.
\<close>

record world =
  time_at_get_connection :: real
  time_at_expiry_check :: real
  time_at_refresh :: real
  new_WorkspaceClient :: "string + client"
  oauth_access_token :: "string + string"
  new_ConnectionPool :: "string option"
  pool_connection :: "string option"
  with_enter :: "exn option"
  cursor_execute :: "exn option"
  with_exit :: "exn option"
  orders_matching :: "string \<Rightarrow> string \<Rightarrow> order_row list"
  adverse_events_table :: "string \<Rightarrow> event_row list"
  set_order :: "string \<Rightarrow> nat"
  new_OpenAI :: "string option"
  chat_create :: "string + string option list"
  json_loads :: "string \<Rightarrow> json_outcome"
  str_strip :: "string \<Rightarrow> string"

definition perform :: "effect \<Rightarrow> app_state \<Rightarrow> app_state" where
  "perform x st = st\<lparr>effects := effects st @ [x]\<rparr>"

text \<open>What a call did to the outside: the effects of \<open>st'\<close> after those of \<open>st\<close>.\<close>

definition performed :: "app_state \<Rightarrow> app_state \<Rightarrow> effect list" where
  "performed st st' = drop (length (effects st)) (effects st')"

definition set_status :: "string \<Rightarrow> string \<Rightarrow> app_state \<Rightarrow> app_state" where
  "set_status s m st = st\<lparr>connection_status := (s, m)\<rparr>"

text \<open>Truth value of a \<open>str\<close> or \<open>None\<close>: \<open>None\<close> and the empty string are false.\<close>

fun truthy :: "string option \<Rightarrow> bool" where
  "truthy None = False"
| "truthy (Some s) = (s \<noteq> [])"

text \<open>\<open>os.getenv(k)\<close>, \<open>os.getenv(k, d)\<close>, and a value inside an f-string.\<close>

definition getenv :: "app_state \<Rightarrow> string \<Rightarrow> string option" where
  "getenv st k = environ st k"

definition getenv_default :: "app_state \<Rightarrow> string \<Rightarrow> string \<Rightarrow> string" where
  "getenv_default st k d = (case environ st k of None \<Rightarrow> d | Some v \<Rightarrow> v)"

fun fmt :: "string option \<Rightarrow> string" where
  "fmt None = ''None''"
| "fmt (Some s) = s"

fun join :: "string \<Rightarrow> string list \<Rightarrow> string" where
  "join sep [] = []"
| "join sep [x] = x"
| "join sep (x # y # ys) = x @ sep @ join sep (y # ys)"

subsection \<open>Credentials\<close>

text \<open>
  Lines 24 to 46. \<open>DATABRICKS_TOKEN\<close> is popped from the environment, the client is
  built, and the \<open>finally\<close> clause puts the token back when it is a non-empty string.
\<close>

definition restore_token :: "string option \<Rightarrow> app_state \<Rightarrow> app_state" where
  "restore_token databricks_token st =
     (if truthy databricks_token
      then st\<lparr>environ := (environ st)(''DATABRICKS_TOKEN'' := databricks_token)\<rparr>
      else st)"

definition initialize_databricks_client :: "world \<Rightarrow> app_state \<Rightarrow> bool \<times> app_state" where
  "initialize_databricks_client w st =
     (let databricks_token = environ st ''DATABRICKS_TOKEN'';
          st1 = perform Sdk_WorkspaceClient
                  (st\<lparr>environ := (environ st)(''DATABRICKS_TOKEN'' := None)\<rparr>)
      in case new_WorkspaceClient w of
           Inr c \<Rightarrow>
             (True, restore_token databricks_token
                      (set_status ''databricks_ok'' ''Databricks client initialized''
                         (st1\<lparr>workspace_client := Some c\<rparr>)))
         | Inl e \<Rightarrow>
             (False, set_status ''databricks_error''
                       (''Databricks initialization failed: '' @ e)
                       (restore_token databricks_token st1)))"

text \<open>The test of lines 52 and 127, on the clock reading \<open>now\<close>.\<close>

definition token_expired :: "real \<Rightarrow> app_state \<Rightarrow> bool" where
  "token_expired now st \<longleftrightarrow>
     postgres_password st = None \<or> now - last_password_refresh st > 900"

text \<open>Lines 48 to 73.\<close>

definition refresh_oauth_token :: "world \<Rightarrow> app_state \<Rightarrow> bool \<times> app_state" where
  "refresh_oauth_token w st =
     (if token_expired (time_at_expiry_check w) st then
        (case (if workspace_client st = None then initialize_databricks_client w st
               else (True, st)) of
           (False, st1) \<Rightarrow> (False, st1)
         | (True, st1) \<Rightarrow>
             (case oauth_access_token w of
                Inr token \<Rightarrow>
                  (True, set_status ''token_ok'' ''OAuth token refreshed successfully''
                           ((perform Oauth_token st1)
                              \<lparr>postgres_password := Some token,
                               last_password_refresh := time_at_refresh w\<rparr>))
              | Inl e \<Rightarrow>
                  (False, set_status ''token_error''
                            (''Failed to refresh OAuth token: '' @ e)
                            (perform Oauth_token st1))))
      else (True, st))"

subsection \<open>The connection pool\<close>

definition required_vars :: "string list" where
  "required_vars = [''PGDATABASE'', ''PGUSER'', ''PGHOST'', ''PGPORT'', ''PGSCHEMA'']"

text \<open>Lines 100 to 108.\<close>

definition conn_string :: "app_state \<Rightarrow> string" where
  "conn_string st =
     ''dbname='' @ fmt (getenv st ''PGDATABASE'') @ '' '' @
     ''user='' @ fmt (getenv st ''PGUSER'') @ '' '' @
     ''password='' @ fmt (postgres_password st) @ '' '' @
     ''host='' @ fmt (getenv st ''PGHOST'') @ '' '' @
     ''port='' @ fmt (getenv st ''PGPORT'') @ '' '' @
     ''sslmode='' @ getenv_default st ''PGSSLMODE'' ''require'' @ '' '' @
     ''application_name='' @ fmt (getenv st ''PGAPPNAME'')"

text \<open>Lines 75 to 120.\<close>

definition get_connection_pool :: "world \<Rightarrow> app_state \<Rightarrow> pool option \<times> app_state" where
  "get_connection_pool w st =
     (case connection_pool st of
        Some p \<Rightarrow> (Some p, st)
      | None \<Rightarrow>
          (let missing_vars = filter (\<lambda>var. \<not> truthy (getenv st var)) required_vars
           in if missing_vars \<noteq> [] then
                (None, set_status ''env_error''
                         (''Missing environment variables: '' @ join '', '' missing_vars) st)
              else
                (case refresh_oauth_token w st of
                   (False, st1) \<Rightarrow> (None, st1)
                 | (True, st1) \<Rightarrow>
                     if \<not> truthy (postgres_password st1) then
                       (None, set_status ''token_error'' ''No OAuth token available'' st1)
                     else
                       (case new_ConnectionPool w of
                          None \<Rightarrow>
                            (let p = ConnectionPool (conn_string st1) 2 10
                             in (Some p,
                                 set_status ''connected''
                                   (''Connected to '' @ fmt (getenv st1 ''PGHOST''))
                                   ((perform (Pool_created p) st1)
                                      \<lparr>connection_pool := Some p\<rparr>)))
                        | Some e \<Rightarrow>
                            (None, set_status ''connection_error''
                                     (''Failed to create connection pool: '' @ e) st1)))))"

text \<open>
  Lines 122 to 142; \<open>discard_expired_pool\<close> is the block of lines 127 to 130. A
  \<open>ConnectionPool\<close> object is true in a condition, so \<open>if connection_pool\<close> asks whether
  there is one. \<open>close()\<close> is taken to return.
\<close>

definition discard_expired_pool :: "world \<Rightarrow> app_state \<Rightarrow> app_state" where
  "discard_expired_pool w st =
     (if token_expired (time_at_get_connection w) st then
        (case connection_pool st of
           Some p \<Rightarrow> (perform (Pool_closed p) st)\<lparr>connection_pool := None\<rparr>
         | None \<Rightarrow> st)
      else st)"

definition get_connection :: "world \<Rightarrow> app_state \<Rightarrow> connection option \<times> app_state" where
  "get_connection w st =
     (case get_connection_pool w (discard_expired_pool w st) of
        (None, st1) \<Rightarrow> (None, st1)
      | (Some pool, st1) \<Rightarrow>
          (case pool_connection w of
             None \<Rightarrow> (Some (Connection pool), perform (Pool_connection pool) st1)
           | Some e \<Rightarrow>
               (None, set_status ''connection_error''
                        (''Failed to get connection: '' @ e)
                        (perform (Pool_connection pool) st1))))"

subsection \<open>Orders\<close>

text \<open>The dict literal of lines 209 to 214 and the loop of lines 207 to 214.\<close>

definition row_to_order :: "order_row \<Rightarrow> order" where
  "row_to_order row =
     (case row of (c0, c1, c2, c3) \<Rightarrow>
        \<lparr>order_id = c0, order_date = c1, device_name = c2, quantity = c3\<rparr>)"

definition orders_loop :: "order_row list \<Rightarrow> order list" where
  "orders_loop results = foldl (\<lambda>orders row. orders @ [row_to_order row]) [] results"

text \<open>What the server answers to \<open>Select_orders schema\<close> with parameter \<open>p\<close>: \<open>LIMIT 100\<close>.\<close>

definition select_orders :: "world \<Rightarrow> string \<Rightarrow> string \<Rightarrow> order_row list" where
  "select_orders w schema p = take 100 (orders_matching w schema p)"

text \<open>
  The \<open>try\<close> block of lines 189 to 216. When \<open>get_connection\<close> returns \<open>None\<close>, the \<open>with\<close>
  statement raises on it (\<open>None\<close> is no context manager) before \<open>conn\<close> is bound, so the
  test \<open>conn is None\<close> of line 190 is never reached. The \<open>return\<close> of line 216 is inside
  both \<open>with\<close> blocks: they are left before the function returns, and an exception
  raised there takes the place of the returned list, or of the exception that was on
  its way to the handlers.
\<close>

definition get_retailer_orders_try ::
  "world \<Rightarrow> app_state \<Rightarrow> string \<Rightarrow> (exn + order list) \<times> app_state" where
  "get_retailer_orders_try w st retailer_name =
     (case get_connection w st of
        (None, st1) \<Rightarrow> (Inl (OtherException ''__enter__''), st1)
      | (Some conn, st1) \<Rightarrow>
          (case with_enter w of
             Some e \<Rightarrow> (Inl e, st1)
           | None \<Rightarrow>
               (let schema = getenv_default st1 ''PGSCHEMA'' ''mma'';
                    st2 = perform (Execute (Select_orders schema)
                                     [str_strip w retailer_name]) st1
                in case cursor_execute w of
                     Some e \<Rightarrow>
                       (case with_exit w of
                          None \<Rightarrow> (Inl e, st2)
                        | Some e' \<Rightarrow> (Inl e', st2))
                   | None \<Rightarrow>
                       (let orders = orders_loop
                              (select_orders w schema (str_strip w retailer_name))
                        in case with_exit w of
                             None \<Rightarrow> (Inr orders, st2)
                           | Some e' \<Rightarrow> (Inl e', st2)))))"

text \<open>Lines 186 to 222: the two handlers return the empty list.\<close>

definition get_retailer_orders :: "world \<Rightarrow> app_state \<Rightarrow> string \<Rightarrow> order list \<times> app_state" where
  "get_retailer_orders w st retailer_name =
     (case get_retailer_orders_try w st retailer_name of
        (Inr orders, st1) \<Rightarrow> (orders, st1)
      | (Inl (PsycopgError e), st1) \<Rightarrow> ([], st1)
      | (Inl (OtherException e), st1) \<Rightarrow> ([], st1))"

subsection \<open>Adverse events\<close>

definition row_to_event :: "event_row \<Rightarrow> event" where
  "row_to_event row =
     (case row of (c0, c1, c2, c3) \<Rightarrow>
        \<lparr>event_date = c1, adverse_event_description = c2, severity_level = c3\<rparr>)"

text \<open>The body of the loop of lines 253 to 263 (\<open>total_events\<close> is only printed).\<close>

definition group_step :: "adverse_events \<Rightarrow> event_row \<Rightarrow> adverse_events" where
  "group_step adverse_events row =
     (let name = fst row;
          d = (if map_of adverse_events name = None
               then AList.update name [] adverse_events
               else adverse_events)
      in AList.map_entry name (\<lambda>events. events @ [row_to_event row]) d)"

definition events_loop :: "event_row list \<Rightarrow> adverse_events" where
  "events_loop results = foldl group_step [] results"

text \<open>
  What the server answers to \<open>Select_adverse_events schema n\<close> with the parameters \<open>ps\<close>:
  the rows whose \<open>device_name\<close> is one of them; NULL is in no list.
\<close>

definition select_adverse_events :: "world \<Rightarrow> string \<Rightarrow> string list \<Rightarrow> event_row list" where
  "select_adverse_events w schema ps =
     filter (\<lambda>row. case fst row of None \<Rightarrow> False | Some n \<Rightarrow> n \<in> set ps)
       (adverse_events_table w schema)"

text \<open>
  The \<open>try\<close> block of lines 230 to 266; the \<open>return\<close> of line 266 is inside both \<open>with\<close>
  blocks, as in \<open>get_retailer_orders\<close>.
\<close>

definition get_device_adverse_events_try ::
  "world \<Rightarrow> app_state \<Rightarrow> string list \<Rightarrow> (exn + adverse_events) \<times> app_state" where
  "get_device_adverse_events_try w st device_names =
     (case get_connection w st of
        (None, st1) \<Rightarrow> (Inl (OtherException ''__enter__''), st1)
      | (Some conn, st1) \<Rightarrow>
          (case with_enter w of
             Some e \<Rightarrow> (Inl e, st1)
           | None \<Rightarrow>
               (let limited_device_names = take 1000 device_names;
                    schema = getenv_default st1 ''PGSCHEMA'' ''mma'';
                    query = Select_adverse_events schema (length limited_device_names);
                    st2 = perform (Execute query limited_device_names) st1
                in case cursor_execute w of
                     Some e \<Rightarrow>
                       (case with_exit w of
                          None \<Rightarrow> (Inl e, st2)
                        | Some e' \<Rightarrow> (Inl e', st2))
                   | None \<Rightarrow>
                       (let adverse_events = events_loop
                              (select_adverse_events w schema limited_device_names)
                        in case with_exit w of
                             None \<Rightarrow> (Inr adverse_events, st2)
                           | Some e' \<Rightarrow> (Inl e', st2)))))"

text \<open>Lines 224 to 272.\<close>

definition get_device_adverse_events ::
  "world \<Rightarrow> app_state \<Rightarrow> string list \<Rightarrow> adverse_events \<times> app_state" where
  "get_device_adverse_events w st device_names =
     (if device_names = [] then ([], st)
      else
        (case get_device_adverse_events_try w st device_names of
           (Inr adverse_events, st1) \<Rightarrow> (adverse_events, st1)
         | (Inl (PsycopgError e), st1) \<Rightarrow> ([], st1)
         | (Inl (OtherException e), st1) \<Rightarrow> ([], st1)))"

text \<open>
  Lines 274 to 276. The comprehension keeps the device names that are true in a condition;
  \<open>set\<close> drops the repetitions and \<open>list\<close> reads the set in CPython's order, which is
  \<open>set_order\<close>: every order of the distinct names is the one of some \<open>set_order\<close>.
\<close>

fun truthy_device_names :: "order list \<Rightarrow> string list" where
  "truthy_device_names [] = []"
| "truthy_device_names (order # orders) =
     (case device_name order of
        None \<Rightarrow> truthy_device_names orders
      | Some n \<Rightarrow> if n \<noteq> [] then n # truthy_device_names orders
                  else truthy_device_names orders)"

definition get_unique_device_names :: "world \<Rightarrow> order list \<Rightarrow> string list" where
  "get_unique_device_names w orders =
     sort_key (set_order w) (remdups (truthy_device_names orders))"

subsection \<open>Callbacks\<close>

text \<open>Lines 476 to 483; the store holds \<open>None\<close> or a list.\<close>

definition load_adverse_events ::
  "world \<Rightarrow> app_state \<Rightarrow> order list option \<Rightarrow> adverse_events \<times> app_state" where
  "load_adverse_events w st orders_data =
     (case orders_data of
        None \<Rightarrow> ([], st)
      | Some orders \<Rightarrow>
          if orders = [] then ([], st)
          else get_device_adverse_events w st (get_unique_device_names w orders))"

text \<open>
  Lines 551 to 562: the values of the options of a device's dropdown are the positions
  \<open>enumerate\<close> counts.
\<close>

definition dropdown_values :: "event list \<Rightarrow> int list" where
  "dropdown_values events = map int [0..<length events]"

text \<open>Python's \<open>xs[i]\<close>: a negative index counts from the end.\<close>

datatype py_error = IndexError

definition subscript :: "'a list \<Rightarrow> int \<Rightarrow> py_error + 'a" where
  "subscript events i =
     (if 0 \<le> i \<and> i < int (length events) then Inr (events ! nat i)
      else if i < 0 \<and> - int (length events) \<le> i
           then Inr (events ! nat (int (length events) + i))
      else Inl IndexError)"

text \<open>
  Lines 595 to 640. The returned component is \<open>No_details\<close> for the empty string and
  \<open>Details\<close> of the event and the style chosen by its severity for the \<open>html.Div\<close>.
\<close>

datatype severity_style = High_style | Medium_style | Low_style | Default_style

datatype details = No_details | Details event severity_style

definition severity_style_of :: "pyval \<Rightarrow> severity_style" where
  "severity_style_of s =
     (if s = PStr ''High'' then High_style
      else if s = PStr ''Medium'' then Medium_style
      else if s = PStr ''Low'' then Low_style
      else Default_style)"

definition render_event :: "event \<Rightarrow> details" where
  "render_event event = Details event (severity_style_of (severity_level event))"

definition dict_get :: "adverse_events \<Rightarrow> string \<Rightarrow> event list" where
  "dict_get d k = (case map_of d (Some k) of None \<Rightarrow> [] | Some events \<Rightarrow> events)"

definition display_adverse_event_details ::
  "int option \<Rightarrow> adverse_events option \<Rightarrow> string \<Rightarrow> py_error + details" where
  "display_adverse_event_details selected_event_index adverse_events_data device =
     (case selected_event_index of
        None \<Rightarrow> Inr No_details
      | Some i \<Rightarrow>
          (case adverse_events_data of
             None \<Rightarrow> Inr No_details
           | Some d \<Rightarrow>
               if d = [] then Inr No_details
               else
                 (let events = dict_get d device
                  in if i \<ge> int (length events) then Inr No_details
                     else
                       (case subscript events i of
                          Inl e \<Rightarrow> Inl e
                        | Inr event \<Rightarrow> Inr (render_event event)))))"

subsection \<open>The analysis\<close>







text \<open>The effects that are a statement sent to the database.\<close>

fun is_execute :: "effect \<Rightarrow> bool" where
  "is_execute (Execute s ps) = True"
| "is_execute _ = False"

subsection \<open>Sample inputs\<close>

text \<open>
  \<open>initial_state\<close> holds the globals as lines 18 to 22 set them, in a process whose
  environment names the database; \<open>connected_state\<close> is a state with a token fetched at
  time 500 and a pool. \<open>sample_world\<close> answers every call without an exception.
\<close>

definition sample_environ :: "string \<rightharpoonup> string" where
  "sample_environ =
     map_of [(''PGDATABASE'', ''db''), (''PGUSER'', ''app''), (''PGHOST'', ''host''),
             (''PGPORT'', ''5432''), (''PGSCHEMA'', ''mma''), (''DATABRICKS_TOKEN'', ''dapi'')]"

definition initial_state :: app_state where
  "initial_state =
     \<lparr>environ = sample_environ, workspace_client = None, postgres_password = None,
      last_password_refresh = 0, connection_pool = None,
      connection_status = (''not_initialized'', []), effects = []\<rparr>"

definition connected_state :: app_state where
  "connected_state =
     initial_state\<lparr>workspace_client := Some WorkspaceClient, postgres_password := Some ''old'',
                    last_password_refresh := 500,
                    connection_pool := Some (ConnectionPool ''conninfo'' 2 10)\<rparr>"

definition sample_orders :: "order_row list" where
  "sample_orders =
     [(PInt 1, PDate 20000, Some ''Drill'', PInt 3),
      (PInt 2, PDate 20001, None, PInt 1),
      (PInt 3, PDate 20002, Some ''Drill'', PInt 5),
      (PInt 4, PDate 20003, Some ''Scaler'', PInt 2)]"

definition sample_events :: "event_row list" where
  "sample_events =
     [(Some ''Drill'', PDate 20010, PStr ''overheats'', PStr ''High''),
      (Some ''Laser'', PDate 20009, PStr ''no beam'', PStr ''Low''),
      (Some ''Drill'', PDate 20008, PStr ''stalls'', PStr ''Medium'')]"

text \<open>
  The \<open>str.strip()\<close> of the sample world: on text of ASCII characters, the characters
  \<open>str.isspace\<close> accepts are the codes 9 to 13, 28 to 32.
\<close>

definition ascii_space :: "char \<Rightarrow> bool" where
  "ascii_space c = (c \<in> set [CHR 0x09, CHR 0x0A, CHR 0x0B, CHR 0x0C, CHR 0x0D,
                             CHR 0x1C, CHR 0x1D, CHR 0x1E, CHR 0x1F, CHR 0x20])"

definition ascii_strip :: "string \<Rightarrow> string" where
  "ascii_strip s = rev (dropWhile ascii_space (rev (dropWhile ascii_space s)))"

definition sample_world :: world where
  "sample_world =
     \<lparr>time_at_get_connection = 1000, time_at_expiry_check = 1001, time_at_refresh = 1002,
      new_WorkspaceClient = Inr WorkspaceClient, oauth_access_token = Inr ''tok'',
      new_ConnectionPool = None, pool_connection = None, with_enter = None,
      cursor_execute = None, with_exit = None,
      orders_matching = (\<lambda>schema p. if p = ''acme'' then sample_orders else []),
      adverse_events_table = (\<lambda>schema. sample_events),
      set_order = length,
      new_OpenAI = None, chat_create = Inr [Some ''{}''],
      json_loads = (\<lambda>s. if s = ''{}'' then Parsed (JObj []) else JSONDecodeError),
      str_strip = ascii_strip\<rparr>"

section \<open>Effects of the helper functions\<close>

lemma performed_self [simp]: "performed st st = []"
  by (simp add: performed_def)

lemma effects_set_status [simp]: "effects (set_status s m st) = effects st"
  by (simp add: set_status_def)

lemma effects_perform [simp]: "effects (perform x st) = effects st @ [x]"
  by (simp add: perform_def)

lemma effects_restore_token [simp]: "effects (restore_token t st) = effects st"
  by (simp add: restore_token_def)

lemma performed_append [simp]: "effects st' = effects st @ xs \<Longrightarrow> performed st st' = xs"
  by (simp add: performed_def)

lemma effects_initialize:
  "effects (snd (initialize_databricks_client w st)) = effects st @ [Sdk_WorkspaceClient]"
  by (simp add: initialize_databricks_client_def Let_def split: sum.splits)

lemma initialize_ok:
  "fst (initialize_databricks_client w st) \<longleftrightarrow> (\<exists>c. new_WorkspaceClient w = Inr c)"
  by (simp add: initialize_databricks_client_def Let_def split: sum.splits)

lemma initialize_keeps_pool:
  "connection_pool (snd (initialize_databricks_client w st)) = connection_pool st"
  by (simp add: initialize_databricks_client_def Let_def set_status_def perform_def
        restore_token_def split: sum.splits)

text \<open>
  The calls of \<open>refresh_oauth_token\<close>: the SDK client is built when there is none, and the
  token is asked for when there is a client then.
\<close>

lemma effects_refresh:
  "effects (snd (refresh_oauth_token w st)) =
     effects st @
     (if token_expired (time_at_expiry_check w) st then
        (if workspace_client st = None then [Sdk_WorkspaceClient] else []) @
        (if workspace_client st \<noteq> None \<or> (\<exists>c. new_WorkspaceClient w = Inr c)
         then [Oauth_token] else [])
      else [])"
proof (cases "workspace_client st = None")
  case True
  obtain ok st1 where i: "initialize_databricks_client w st = (ok, st1)" by force
  have e: "effects st1 = effects st @ [Sdk_WorkspaceClient]"
    using effects_initialize [of w st] i by simp
  have o: "ok \<longleftrightarrow> (\<exists>c. new_WorkspaceClient w = Inr c)"
    using initialize_ok [of w st] i by simp
  show ?thesis using True i e o
    by (auto simp add: refresh_oauth_token_def split: sum.splits)
next
  case False
  then show ?thesis
    by (auto simp add: refresh_oauth_token_def split: sum.splits)
qed

lemma refresh_calls:
  "\<exists>xs. effects (snd (refresh_oauth_token w st)) = effects st @ xs
        \<and> set xs \<subseteq> {Sdk_WorkspaceClient, Oauth_token}"
  unfolding effects_refresh by auto

lemma refresh_keeps_pool:
  "connection_pool (snd (refresh_oauth_token w st)) = connection_pool st"
proof (cases "workspace_client st = None")
  case True
  obtain ok st1 where i: "initialize_databricks_client w st = (ok, st1)" by force
  have "connection_pool st1 = connection_pool st"
    using initialize_keeps_pool [of w st] i by simp
  then show ?thesis using True i
    by (cases ok)
       (auto simp add: refresh_oauth_token_def set_status_def perform_def split: sum.splits)
next
  case False
  then show ?thesis
    by (auto simp add: refresh_oauth_token_def set_status_def perform_def split: sum.splits)
qed

lemma get_connection_pool_existing:
  "connection_pool st = Some p \<Longrightarrow> get_connection_pool w st = (Some p, st)"
  by (simp add: get_connection_pool_def)

text \<open>
  Without a pool, \<open>get_connection_pool\<close> closes nothing, and it ends either without a pool
  or with one it has just built.
\<close>

lemma get_connection_pool_new:
  assumes "connection_pool st = None"
  shows "\<exists>xs. effects (snd (get_connection_pool w st)) = effects st @ xs
            \<and> (\<forall>q. Pool_closed q \<notin> set xs)
            \<and> (\<forall>s ps. Execute s ps \<notin> set xs)
            \<and> (connection_pool (snd (get_connection_pool w st)) = None
                  \<and> fst (get_connection_pool w st) = None
               \<or> (\<exists>q. connection_pool (snd (get_connection_pool w st)) = Some q
                        \<and> fst (get_connection_pool w st) = Some q \<and> Pool_created q \<in> set xs))"
proof -
  obtain ok st1 where r: "refresh_oauth_token w st = (ok, st1)" by force
  obtain ys where e: "effects st1 = effects st @ ys" "set ys \<subseteq> {Sdk_WorkspaceClient, Oauth_token}"
    using refresh_calls [of w st] r by auto
  have p: "connection_pool st1 = None"
    using refresh_keeps_pool [of w st] r assms by simp
  show ?thesis using assms r e p
    by (cases ok)
       (auto simp add: get_connection_pool_def Let_def set_status_def perform_def
             split: option.splits)
qed

lemma get_connection_unfold:
  assumes "get_connection_pool w (discard_expired_pool w st) = (r, s)"
  shows "effects (snd (get_connection w st))
           = effects s @ (case r of None \<Rightarrow> [] | Some q \<Rightarrow> [Pool_connection q])"
    and "connection_pool (snd (get_connection w st)) = connection_pool s"
    and "fst (get_connection w st) = None \<or> fst (get_connection w st) = map_option Connection r"
  using assms
  by (cases r; cases "pool_connection w";
      simp add: get_connection_def set_status_def perform_def)+

lemma discard_expired_pool_cases:
  "token_expired (time_at_get_connection w) st \<Longrightarrow> connection_pool st = Some p \<Longrightarrow>
     effects (discard_expired_pool w st) = effects st @ [Pool_closed p]
     \<and> connection_pool (discard_expired_pool w st) = None"
  "\<not> token_expired (time_at_get_connection w) st \<Longrightarrow> discard_expired_pool w st = st"
  "connection_pool st = None \<Longrightarrow> discard_expired_pool w st = st"
  by (simp_all add: discard_expired_pool_def perform_def)

section \<open>The loops and the query functions\<close>

lemma orders_loop_acc:
  "foldl (\<lambda>orders row. orders @ [row_to_order row]) acc rows = acc @ map row_to_order rows"
  by (induction rows arbitrary: acc) simp_all

lemma orders_loop_map: "orders_loop rows = map row_to_order rows"
  by (simp add: orders_loop_def orders_loop_acc)

lemma group_step_map_of:
  "map_of (group_step d row) k =
     (if k = fst row
      then Some ((case map_of d k of None \<Rightarrow> [] | Some l \<Rightarrow> l) @ [row_to_event row])
      else map_of d k)"
  by (simp add: group_step_def Let_def AList.map_of_map_entry AList.update_conv'
           split: option.splits)

lemma group_step_distinct:
  "distinct (map fst d) \<Longrightarrow> distinct (map fst (group_step d row))"
  by (simp add: group_step_def Let_def AList.distinct_map_entry AList.distinct_update)

lemma foldl_group_step_distinct:
  "distinct (map fst d) \<Longrightarrow> distinct (map fst (foldl group_step d rows))"
  by (induction rows arbitrary: d) (simp_all add: group_step_distinct)

text \<open>The loop invariant, for any dict \<open>d\<close> the loop starts from.\<close>

lemma foldl_group_step_map_of:
  "map_of (foldl group_step d rows) k =
     (if map_of d k = None \<and> k \<notin> fst ` set rows then None
      else Some ((case map_of d k of None \<Rightarrow> [] | Some l \<Rightarrow> l)
                 @ map row_to_event (filter (\<lambda>row. fst row = k) rows)))"
proof (induction rows arbitrary: d)
  case Nil
  then show ?case by (simp split: option.splits)
next
  case (Cons row rows)
  show ?case
    by (simp add: Cons.IH group_step_map_of split: option.splits)
qed

lemma events_loop_map_of:
  "map_of (events_loop rows) k =
     (if k \<in> fst ` set rows then Some (map row_to_event (filter (\<lambda>row. fst row = k) rows))
      else None)"
  by (simp add: events_loop_def foldl_group_step_map_of)

lemma total_update_new:
  "map_of d k = None \<Longrightarrow>
     sum_list (map (length \<circ> snd) (AList.update k [] d)) = sum_list (map (length \<circ> snd) d)"
  by (induction d) (auto split: if_splits)

lemma total_map_entry:
  "map_of d k \<noteq> None \<Longrightarrow>
     sum_list (map (length \<circ> snd) (AList.map_entry k (\<lambda>l. l @ [e]) d))
       = Suc (sum_list (map (length \<circ> snd) d))"
  by (induction d) (auto split: if_splits)

lemma total_group_step:
  "sum_list (map (length \<circ> snd) (group_step d row)) = Suc (sum_list (map (length \<circ> snd) d))"
  by (simp add: group_step_def Let_def total_update_new total_map_entry AList.update_conv')

lemma total_foldl_group_step:
  "sum_list (map (length \<circ> snd) (foldl group_step d rows))
     = sum_list (map (length \<circ> snd) d) + length rows"
  by (induction rows arbitrary: d) (simp_all add: total_group_step)

lemma no_execute_filter:
  "(\<forall>s ps. Execute s ps \<notin> set xs) \<Longrightarrow> filter is_execute xs = []"
proof (induction xs)
  case Nil
  then show ?case by simp
next
  case (Cons x xs)
  then show ?case by (cases x) auto
qed

lemma get_connection_no_execute:
  "\<exists>xs. effects (snd (get_connection w st)) = effects st @ xs \<and> (\<forall>s ps. Execute s ps \<notin> set xs)"
proof -
  let ?st0 = "discard_expired_pool w st"
  obtain r s where rs: "get_connection_pool w ?st0 = (r, s)" by force
  note conn = get_connection_unfold [OF rs]
  have "\<exists>ys. effects ?st0 = effects st @ ys \<and> (\<forall>s ps. Execute s ps \<notin> set ys)"
    by (cases "connection_pool st")
       (simp_all add: discard_expired_pool_def perform_def)
  then obtain ys where ys: "effects ?st0 = effects st @ ys" "\<forall>s ps. Execute s ps \<notin> set ys"
    by blast
  obtain zs where zs: "effects s = effects ?st0 @ zs" "\<forall>s ps. Execute s ps \<notin> set zs"
  proof (cases "connection_pool ?st0")
    case None
    then show ?thesis
      using get_connection_pool_new [OF None, of w] rs that by auto
  next
    case (Some p)
    then show ?thesis
      using get_connection_pool_existing [OF Some, of w] rs that [of "[]"] by simp
  qed
  show ?thesis
    using conn(1) ys zs by (cases r) auto
qed

text \<open>The two query functions with the handlers folded in.\<close>

lemma get_retailer_orders_cases:
  "get_retailer_orders w st n =
     (case get_connection w st of
        (None, st1) \<Rightarrow> ([], st1)
      | (Some c, st1) \<Rightarrow>
          (case with_enter w of
             Some e \<Rightarrow> ([], st1)
           | None \<Rightarrow>
               (if cursor_execute w = None \<and> with_exit w = None
                then map row_to_order
                       (select_orders w (getenv_default st1 ''PGSCHEMA'' ''mma'')
                          (str_strip w n))
                else [],
                perform (Execute (Select_orders (getenv_default st1 ''PGSCHEMA'' ''mma''))
                           [str_strip w n]) st1)))"
  by (simp add: get_retailer_orders_def get_retailer_orders_try_def Let_def orders_loop_map
           split: prod.splits option.splits exn.splits)

lemma get_device_adverse_events_cases:
  "get_device_adverse_events w st names =
     (if names = [] then ([], st)
      else
       (case get_connection w st of
          (None, st1) \<Rightarrow> ([], st1)
        | (Some c, st1) \<Rightarrow>
            (case with_enter w of
               Some e \<Rightarrow> ([], st1)
             | None \<Rightarrow>
                 (if cursor_execute w = None \<and> with_exit w = None
                  then events_loop
                         (select_adverse_events w (getenv_default st1 ''PGSCHEMA'' ''mma'')
                            (take 1000 names))
                  else [],
                  perform (Execute (Select_adverse_events (getenv_default st1 ''PGSCHEMA'' ''mma'')
                                      (length (take 1000 names)))
                             (take 1000 names)) st1))))"
  by (simp add: get_device_adverse_events_def get_device_adverse_events_try_def Let_def
           split: prod.splits option.splits exn.splits)

lemma get_retailer_orders_effects:
  "\<exists>xs. (\<forall>s ps. Execute s ps \<notin> set xs) \<and>
        (performed st (snd (get_retailer_orders w st n)) = xs
         \<or> (\<exists>schema. performed st (snd (get_retailer_orders w st n))
                        = xs @ [Execute (Select_orders schema) [str_strip w n]]))"
proof -
  obtain r st1 where g: "get_connection w st = (r, st1)" by force
  obtain xs where xs: "effects st1 = effects st @ xs" "\<forall>s ps. Execute s ps \<notin> set xs"
    using get_connection_no_execute [of w st] g by auto
  show ?thesis
    using g xs by (auto simp add: get_retailer_orders_cases split: option.splits)
qed

lemma get_device_adverse_events_effects:
  "\<exists>xs. (\<forall>s ps. Execute s ps \<notin> set xs) \<and>
        (performed st (snd (get_device_adverse_events w st names)) = xs
         \<or> (\<exists>schema. performed st (snd (get_device_adverse_events w st names))
                        = xs @ [Execute (Select_adverse_events schema (length (take 1000 names)))
                                  (take 1000 names)]))"
proof -
  obtain r st1 where g: "get_connection w st = (r, st1)" by force
  obtain xs where xs: "effects st1 = effects st @ xs" "\<forall>s ps. Execute s ps \<notin> set xs"
    using get_connection_no_execute [of w st] g by auto
  show ?thesis
    using g xs by (auto simp add: get_device_adverse_events_cases split: option.splits)
qed

text \<open>The connection \<open>get_connection\<close> hands out in the sample state with a pool.\<close>

lemma sample_connection:
  "get_connection sample_world connected_state =
     (Some (Connection (ConnectionPool ''conninfo'' 2 10)),
      perform (Pool_connection (ConnectionPool ''conninfo'' 2 10)) connected_state)"
  by (simp add: get_connection_def discard_expired_pool_def token_expired_def
        get_connection_pool_def connected_state_def initial_state_def sample_world_def)

lemma sample_connection_exit:
  "get_connection (sample_world\<lparr>with_exit := x\<rparr>) connected_state =
     (Some (Connection (ConnectionPool ''conninfo'' 2 10)),
      perform (Pool_connection (ConnectionPool ''conninfo'' 2 10)) connected_state)"
  by (simp add: get_connection_def discard_expired_pool_def token_expired_def
        get_connection_pool_def connected_state_def initial_state_def sample_world_def)

section \<open>Device names, keys and the analysis\<close>

lemma truthy_device_names_set:
  "set (truthy_device_names orders)
     = {n. n \<noteq> [] \<and> (\<exists>order \<in> set orders. device_name order = Some n)}"
  by (induction orders) (auto split: option.splits)

lemma unique_names_aux:
  "distinct (get_unique_device_names w orders)
   \<and> (\<forall>n \<in> set (get_unique_device_names w orders).
         \<exists>order \<in> set orders. device_name order = Some n)"
  by (auto simp add: get_unique_device_names_def truthy_device_names_set)

lemma events_loop_keys: "k \<in> fst ` set (events_loop rows) \<longleftrightarrow> k \<in> fst ` set rows"
proof -
  have "k \<notin> fst ` set (events_loop rows) \<longleftrightarrow> map_of (events_loop rows) k = None"
    by (simp add: map_of_eq_None_iff)
  also have "\<dots> \<longleftrightarrow> k \<notin> fst ` set rows"
    by (simp add: events_loop_map_of)
  finally show ?thesis by blast
qed

lemma select_adverse_events_keys:
  "k \<in> fst ` set (select_adverse_events w schema ps) \<Longrightarrow> \<exists>n \<in> set ps. k = Some n"
  by (auto simp add: select_adverse_events_def split: option.splits)

lemma get_device_adverse_events_result:
  "fst (get_device_adverse_events w st names) = []
   \<or> (\<exists>schema. fst (get_device_adverse_events w st names)
                   = events_loop (select_adverse_events w schema (take 1000 names)))"
  by (auto simp add: get_device_adverse_events_cases split: prod.splits option.splits)


section \<open>The claims\<close>

subsection \<open>C1: the expiry check of the token refresh\<close>

text \<open>
  C1 as stated says that \<open>refresh_oauth_token\<close> fetches a token if and only if there is no
  stored token or more than 900 seconds have passed. With the globals as the module first
  sets them and an SDK client that cannot be built, the token is absent and
  \<open>refresh_oauth_token\<close> returns \<open>False\<close> at line 58 without asking for a token.
\<close>

theorem refresh_oauth_token_counterexample:
  "(postgres_password initial_state = None
      \<or> time_at_expiry_check (sample_world\<lparr>new_WorkspaceClient := Inl ''no credentials''\<rparr>)
          - last_password_refresh initial_state > 900)
   \<and> Oauth_token \<notin> set (performed initial_state
          (snd (refresh_oauth_token (sample_world\<lparr>new_WorkspaceClient := Inl ''no credentials''\<rparr>)
                  initial_state)))
   \<and> fst (refresh_oauth_token (sample_world\<lparr>new_WorkspaceClient := Inl ''no credentials''\<rparr>)
            initial_state) = False"
  by (simp add: initial_state_def sample_world_def refresh_oauth_token_def token_expired_def
        initialize_databricks_client_def Let_def set_status_def perform_def restore_token_def
        performed_def sample_environ_def)

text \<open>
  C1, amended: \<open>refresh_oauth_token\<close> asks for a new OAuth token if and only if
  \<open>postgres_password\<close> is \<open>None\<close> or more than 900 seconds have elapsed since
  \<open>last_password_refresh\<close>, and a workspace client is there or can be built; when the token
  is neither absent nor older than 900 seconds it returns \<open>True\<close> and leaves the stored
  token and the refresh timestamp unchanged.
\<close>

theorem refresh_oauth_token_expiry:
  "(Oauth_token \<in> set (performed st (snd (refresh_oauth_token w st))) \<longleftrightarrow>
      (postgres_password st = None \<or> time_at_expiry_check w - last_password_refresh st > 900) \<and>
      (workspace_client st \<noteq> None \<or> (\<exists>c. new_WorkspaceClient w = Inr c)))
   \<and> (\<not> (postgres_password st = None \<or> time_at_expiry_check w - last_password_refresh st > 900) \<longrightarrow>
        fst (refresh_oauth_token w st) = True
        \<and> postgres_password (snd (refresh_oauth_token w st)) = postgres_password st
        \<and> last_password_refresh (snd (refresh_oauth_token w st)) = last_password_refresh st)"
proof -
  have "\<not> token_expired (time_at_expiry_check w) st \<Longrightarrow> refresh_oauth_token w st = (True, st)"
    by (simp add: refresh_oauth_token_def)
  then show ?thesis
    using effects_refresh [of w st]
    by (auto simp add: token_expired_def)
qed

theorem refresh_oauth_token_expiry_witness:
  "\<not> (postgres_password connected_state = None
        \<or> time_at_expiry_check sample_world - last_password_refresh connected_state > 900)
   \<and> fst (refresh_oauth_token sample_world connected_state) = True
   \<and> postgres_password (snd (refresh_oauth_token sample_world connected_state)) = Some ''old''
   \<and> last_password_refresh (snd (refresh_oauth_token sample_world connected_state)) = 500
   \<and> Oauth_token \<in> set (performed initial_state (snd (refresh_oauth_token sample_world initial_state)))"
proof -
  have fresh: "\<not> (postgres_password connected_state = None
        \<or> time_at_expiry_check sample_world - last_password_refresh connected_state > 900)"
    by (simp add: connected_state_def initial_state_def sample_world_def)
  have stale: "postgres_password initial_state = None"
      "new_WorkspaceClient sample_world = Inr WorkspaceClient"
    by (simp_all add: initial_state_def sample_world_def)
  show ?thesis
    using fresh stale refresh_oauth_token_expiry [of connected_state sample_world]
      refresh_oauth_token_expiry [of initial_state sample_world]
    by (simp add: connected_state_def initial_state_def)
qed

subsection \<open>C2: the pool is rebuilt lazily\<close>

text \<open>
  C2: \<open>get_connection\<close> closes a pool exactly when that pool is the stored one and the token
  is absent or older than 900 seconds, and the closed pool is discarded: the call ends
  without a pool or with one built during the call. \<open>get_connection_pool\<close> builds a pool
  only when \<open>connection_pool\<close> is \<open>None\<close>, and returns the stored pool with the state
  untouched when there is one. With a pool and a fresh token, \<open>get_connection\<close> keeps the
  stored pool, builds none, and the connection it returns, if any, is taken from that pool.
\<close>

theorem lazy_connection_pool:
  "(\<forall>q. Pool_closed q \<in> set (performed st (snd (get_connection w st))) \<longleftrightarrow>
          connection_pool st = Some q \<and>
          (postgres_password st = None \<or> time_at_get_connection w - last_password_refresh st > 900))
   \<and> (connection_pool st = Some p \<and>
        (postgres_password st = None \<or> time_at_get_connection w - last_password_refresh st > 900) \<longrightarrow>
          connection_pool (snd (get_connection w st)) = None
          \<or> (\<exists>q. connection_pool (snd (get_connection w st)) = Some q
                 \<and> Pool_created q \<in> set (performed st (snd (get_connection w st)))))
   \<and> (\<forall>q. Pool_created q \<in> set (performed st (snd (get_connection_pool w st))) \<longrightarrow>
          connection_pool st = None)
   \<and> (connection_pool st = Some p \<longrightarrow> get_connection_pool w st = (Some p, st))
   \<and> (connection_pool st = Some p \<and>
        \<not> (postgres_password st = None \<or> time_at_get_connection w - last_password_refresh st > 900) \<longrightarrow>
          connection_pool (snd (get_connection w st)) = Some p
          \<and> (\<forall>q. Pool_created q \<notin> set (performed st (snd (get_connection w st))))
          \<and> (fst (get_connection w st) = None \<or> fst (get_connection w st) = Some (Connection p)))"
  (is "?closes \<and> ?discards \<and> ?creates \<and> ?existing \<and> ?fresh")
proof -
  let ?st0 = "discard_expired_pool w st"
  let ?st' = "snd (get_connection w st)"
  obtain r s where rs: "get_connection_pool w ?st0 = (r, s)" by force
  note conn = get_connection_unfold [OF rs]
  have existing: ?existing
    by (simp add: get_connection_pool_existing)
  have creates: ?creates
    by (cases "connection_pool st") (simp_all add: get_connection_pool_existing)
  have rest: "?closes \<and> ?discards \<and> ?fresh"
    unfolding token_expired_def [of "time_at_get_connection w" st, symmetric]
  proof (cases "token_expired (time_at_get_connection w) st \<and> connection_pool st \<noteq> None")
    case True
    then obtain p' where p': "connection_pool st = Some p'" by blast
    have d: "effects ?st0 = effects st @ [Pool_closed p']" "connection_pool ?st0 = None"
      using True p' discard_expired_pool_cases(1) [of w st p'] by simp_all
    obtain xs where xs: "effects (snd (get_connection_pool w ?st0)) = effects ?st0 @ xs"
       "\<forall>q. Pool_closed q \<notin> set xs"
       "connection_pool (snd (get_connection_pool w ?st0)) = None
            \<and> fst (get_connection_pool w ?st0) = None
        \<or> (\<exists>q. connection_pool (snd (get_connection_pool w ?st0)) = Some q
               \<and> fst (get_connection_pool w ?st0) = Some q \<and> Pool_created q \<in> set xs)"
      using get_connection_pool_new [OF d(2), of w] by blast
    have eff: "performed st ?st'
                 = Pool_closed p' # xs @ (case r of None \<Rightarrow> [] | Some q \<Rightarrow> [Pool_connection q])"
      using conn(1) xs(1) d(1) rs by simp
    have closes: "\<And>q. Pool_closed q \<in> set (performed st ?st') \<longleftrightarrow> q = p'"
      unfolding eff using xs(2) by (cases r) auto
    have final: "connection_pool ?st' = None
        \<or> (\<exists>q. connection_pool ?st' = Some q \<and> Pool_created q \<in> set (performed st ?st'))"
      unfolding eff using xs(3) conn(2) rs by auto
    show "(\<forall>q. Pool_closed q \<in> set (performed st ?st') \<longleftrightarrow>
             connection_pool st = Some q \<and> token_expired (time_at_get_connection w) st)
       \<and> (connection_pool st = Some p \<and> token_expired (time_at_get_connection w) st \<longrightarrow>
            connection_pool ?st' = None
            \<or> (\<exists>q. connection_pool ?st' = Some q \<and> Pool_created q \<in> set (performed st ?st')))
       \<and> (connection_pool st = Some p \<and> \<not> token_expired (time_at_get_connection w) st \<longrightarrow>
            connection_pool ?st' = Some p
            \<and> (\<forall>q. Pool_created q \<notin> set (performed st ?st'))
            \<and> (fst (get_connection w st) = None \<or> fst (get_connection w st) = Some (Connection p)))"
      using True p' closes final by auto
  next
    case False
    then have same: "?st0 = st"
      using discard_expired_pool_cases(2,3) [where w = w and st = st] by blast
    show "(\<forall>q. Pool_closed q \<in> set (performed st ?st') \<longleftrightarrow>
             connection_pool st = Some q \<and> token_expired (time_at_get_connection w) st)
       \<and> (connection_pool st = Some p \<and> token_expired (time_at_get_connection w) st \<longrightarrow>
            connection_pool ?st' = None
            \<or> (\<exists>q. connection_pool ?st' = Some q \<and> Pool_created q \<in> set (performed st ?st')))
       \<and> (connection_pool st = Some p \<and> \<not> token_expired (time_at_get_connection w) st \<longrightarrow>
            connection_pool ?st' = Some p
            \<and> (\<forall>q. Pool_created q \<notin> set (performed st ?st'))
            \<and> (fst (get_connection w st) = None \<or> fst (get_connection w st) = Some (Connection p)))"
    proof (cases "connection_pool st")
      case None
      obtain xs where xs: "effects (snd (get_connection_pool w st)) = effects st @ xs"
          "\<forall>q. Pool_closed q \<notin> set xs"
        using get_connection_pool_new [OF None, of w] by blast
      have eff: "performed st ?st' = xs @ (case r of None \<Rightarrow> [] | Some q \<Rightarrow> [Pool_connection q])"
        using conn(1) xs(1) rs same by simp
      have "\<And>q. Pool_closed q \<notin> set (performed st ?st')"
        unfolding eff using xs(2) by (cases r) auto
      then show ?thesis using None by simp
    next
      case (Some p')
      have fresh: "\<not> token_expired (time_at_get_connection w) st" using False Some by simp
      have g: "r = Some p'" "s = st"
        using Some rs same by (simp_all add: get_connection_pool_existing)
      have eff: "performed st ?st' = [Pool_connection p']"
        using conn(1) g by simp
      show ?thesis using Some fresh conn(2,3) g unfolding eff by auto
    qed
  qed
  show ?thesis using rest existing creates by blast
qed

theorem lazy_connection_pool_witness:
  "connection_pool connected_state = Some (ConnectionPool ''conninfo'' 2 10)
   \<and> \<not> (postgres_password connected_state = None
          \<or> time_at_get_connection sample_world - last_password_refresh connected_state > 900)
   \<and> get_connection_pool sample_world connected_state
        = (Some (ConnectionPool ''conninfo'' 2 10), connected_state)
   \<and> connection_pool (snd (get_connection sample_world connected_state))
        = Some (ConnectionPool ''conninfo'' 2 10)
   \<and> time_at_get_connection (sample_world\<lparr>time_at_get_connection := 1401\<rparr>)
         - last_password_refresh connected_state > 900
   \<and> Pool_closed (ConnectionPool ''conninfo'' 2 10)
        \<in> set (performed connected_state
              (snd (get_connection (sample_world\<lparr>time_at_get_connection := 1401\<rparr>) connected_state)))"
proof -
  have p: "connection_pool connected_state = Some (ConnectionPool ''conninfo'' 2 10)"
    by (simp add: connected_state_def)
  have fresh: "\<not> (postgres_password connected_state = None
          \<or> time_at_get_connection sample_world - last_password_refresh connected_state > 900)"
    by (simp add: connected_state_def initial_state_def sample_world_def)
  have stale: "time_at_get_connection (sample_world\<lparr>time_at_get_connection := 1401\<rparr>)
         - last_password_refresh connected_state > 900"
    by (simp add: connected_state_def)
  note fresh_case =
    lazy_connection_pool [of connected_state sample_world "ConnectionPool ''conninfo'' 2 10"]
  note stale_case =
    lazy_connection_pool [of connected_state "sample_world\<lparr>time_at_get_connection := 1401\<rparr>"
      "ConnectionPool ''conninfo'' 2 10"]
  have a: "get_connection_pool sample_world connected_state
             = (Some (ConnectionPool ''conninfo'' 2 10), connected_state)"
    using fresh_case p by blast
  have b: "connection_pool (snd (get_connection sample_world connected_state))
             = Some (ConnectionPool ''conninfo'' 2 10)"
    using fresh_case p fresh by blast
  have c: "Pool_closed (ConnectionPool ''conninfo'' 2 10)
        \<in> set (performed connected_state
              (snd (get_connection (sample_world\<lparr>time_at_get_connection := 1401\<rparr>) connected_state)))"
    using stale_case p stale by blast
  show ?thesis
    using p fresh stale a b c by blast
qed

subsection \<open>C3: adverse events are grouped, nothing else\<close>

text \<open>
  C3 as stated says that, for every list of device names, each fetched row appears in the
  list keyed by its device name. In the sample state with a pool, with a server that
  answers the statement and a commit that fails when the \<open>with\<close> blocks are left, the
  statement is sent, three rows are its answer, and \<open>get_device_adverse_events\<close> returns
  the empty dict: the exception raised on the way out of line 266 reaches the handler of
  line 267.
\<close>

theorem adverse_events_grouped_counterexample:
  "fst (get_connection (sample_world\<lparr>with_exit := Some (PsycopgError ''commit failed'')\<rparr>)
          connected_state) = Some (Connection (ConnectionPool ''conninfo'' 2 10))
   \<and> with_enter (sample_world\<lparr>with_exit := Some (PsycopgError ''commit failed'')\<rparr>) = None
   \<and> cursor_execute (sample_world\<lparr>with_exit := Some (PsycopgError ''commit failed'')\<rparr>) = None
   \<and> Execute (Select_adverse_events ''mma'' 2) [''Drill'', ''Laser'']
        \<in> set (performed connected_state
                (snd (get_device_adverse_events
                        (sample_world\<lparr>with_exit := Some (PsycopgError ''commit failed'')\<rparr>)
                        connected_state [''Drill'', ''Laser''])))
   \<and> select_adverse_events (sample_world\<lparr>with_exit := Some (PsycopgError ''commit failed'')\<rparr>)
        ''mma'' (take 1000 [''Drill'', ''Laser''])
       = [(Some ''Drill'', PDate 20010, PStr ''overheats'', PStr ''High''),
          (Some ''Laser'', PDate 20009, PStr ''no beam'', PStr ''Low''),
          (Some ''Drill'', PDate 20008, PStr ''stalls'', PStr ''Medium'')]
   \<and> fst (get_device_adverse_events
            (sample_world\<lparr>with_exit := Some (PsycopgError ''commit failed'')\<rparr>)
            connected_state [''Drill'', ''Laser'']) = []"
proof -
  let ?w = "sample_world\<lparr>with_exit := Some (PsycopgError ''commit failed'')\<rparr>"
  have e: "with_enter ?w = None" "cursor_execute ?w = None"
      "with_exit ?w = Some (PsycopgError ''commit failed'')"
    by (simp_all add: sample_world_def)
  have s: "getenv_default (perform (Pool_connection (ConnectionPool ''conninfo'' 2 10))
                             connected_state) ''PGSCHEMA'' ''mma'' = ''mma''"
    by (simp add: getenv_default_def perform_def connected_state_def initial_state_def
          sample_environ_def)
  have g: "get_device_adverse_events ?w connected_state [''Drill'', ''Laser'']
             = ([], perform (Execute (Select_adverse_events ''mma'' (Suc (Suc 0)))
                               [''Drill'', ''Laser''])
                      (perform (Pool_connection (ConnectionPool ''conninfo'' 2 10))
                         connected_state))"
    by (simp add: get_device_adverse_events_cases sample_connection_exit e s)
  have r: "select_adverse_events ?w ''mma'' (take 1000 [''Drill'', ''Laser''])
       = [(Some ''Drill'', PDate 20010, PStr ''overheats'', PStr ''High''),
          (Some ''Laser'', PDate 20009, PStr ''no beam'', PStr ''Low''),
          (Some ''Drill'', PDate 20008, PStr ''stalls'', PStr ''Medium'')]"
    by (simp add: select_adverse_events_def sample_world_def sample_events_def)
  show ?thesis
    using e(1,2) r by (simp add: g sample_connection_exit performed_def numeral_2_eq_2)
qed

text \<open>
  C3, amended: when \<open>get_device_adverse_events\<close> fetches the rows \<open>results\<close> (the list of
  device names is not empty, a connection is obtained and neither entering the blocks nor
  the statement raises) and leaving the \<open>with\<close> blocks raises nothing, the dict it returns
  has distinct keys and, under every key \<open>k\<close>, the rows of \<open>results\<close> whose device name is
  \<open>k\<close>, in the order they were fetched, each with its three remaining columns unchanged;
  a key is present only for a device name among the rows, and the lists hold as many events
  as rows were fetched. When leaving the \<open>with\<close> blocks raises, the fetched rows are
  given up and the empty dict is returned.
\<close>

theorem adverse_events_grouped:
  assumes "device_names \<noteq> []"
    and "get_connection w st = (Some conn, st1)"
    and "with_enter w = None" and "cursor_execute w = None"
    and "results = select_adverse_events w (getenv_default st1 ''PGSCHEMA'' ''mma'')
                     (take 1000 device_names)"
  shows "(with_exit w = None \<longrightarrow>
          distinct (map fst (fst (get_device_adverse_events w st device_names)))
          \<and> (\<forall>k. map_of (fst (get_device_adverse_events w st device_names)) k =
                   (if k \<in> fst ` set results
                    then Some (map row_to_event (filter (\<lambda>row. fst row = k) results))
                    else None))
          \<and> sum_list (map (length \<circ> snd) (fst (get_device_adverse_events w st device_names)))
               = length results)
     \<and> (with_exit w \<noteq> None \<longrightarrow> fst (get_device_adverse_events w st device_names) = [])
     \<and> (\<forall>n d t s. row_to_event (n, d, t, s) =
            \<lparr>event_date = d, adverse_event_description = t, severity_level = s\<rparr>)"
proof -
  have left: "with_exit w \<noteq> None \<Longrightarrow> fst (get_device_adverse_events w st device_names) = []"
    using assms by (auto simp add: get_device_adverse_events_cases)
  have kept: "with_exit w = None \<Longrightarrow>
                fst (get_device_adverse_events w st device_names) = events_loop results"
    using assms by (simp add: get_device_adverse_events_cases)
  have grouped: "distinct (map fst (events_loop results))"
      "sum_list (map (length \<circ> snd) (events_loop results)) = length results"
    using foldl_group_step_distinct [of "[]" results] total_foldl_group_step [of "[]" results]
    by (simp_all add: events_loop_def)
  show ?thesis
    using left kept grouped by (simp add: events_loop_map_of row_to_event_def)
qed

theorem adverse_events_grouped_witness:
  "with_exit sample_world = None
   \<and> map_of (fst (get_device_adverse_events sample_world connected_state [''Drill'', ''Laser'']))
       (Some ''Drill'')
     = Some [\<lparr>event_date = PDate 20010, adverse_event_description = PStr ''overheats'',
               severity_level = PStr ''High''\<rparr>,
             \<lparr>event_date = PDate 20008, adverse_event_description = PStr ''stalls'',
               severity_level = PStr ''Medium''\<rparr>]
   \<and> sum_list (map (length \<circ> snd)
        (fst (get_device_adverse_events sample_world connected_state [''Drill'', ''Laser''])))
      = 3"
proof -
  have e: "with_enter sample_world = None" "cursor_execute sample_world = None"
    by (simp_all add: sample_world_def)
  have x: "with_exit sample_world = None"
    by (simp add: sample_world_def)
  have r: "sample_events = select_adverse_events sample_world
             (getenv_default (perform (Pool_connection (ConnectionPool ''conninfo'' 2 10))
                                connected_state) ''PGSCHEMA'' ''mma'')
             (take 1000 [''Drill'', ''Laser''])"
    by (simp add: select_adverse_events_def sample_world_def sample_events_def)
  have n: "[''Drill'', ''Laser''] \<noteq> []" by simp
  show ?thesis
    using adverse_events_grouped [OF n sample_connection e r] x
    by (simp add: sample_events_def row_to_event_def)
qed

subsection \<open>C7: orders are passed through\<close>

text \<open>
  C7 as stated says that no fetched row is dropped. In the sample state with a pool, with
  a server that answers the statement with four rows and a commit that fails when the
  \<open>with\<close> blocks are left, \<open>get_retailer_orders\<close> returns the empty list: the exception
  raised on the way out of line 216 reaches the handler of line 217.
\<close>

theorem orders_verbatim_counterexample:
  "fst (get_connection (sample_world\<lparr>with_exit := Some (PsycopgError ''commit failed'')\<rparr>)
          connected_state) = Some (Connection (ConnectionPool ''conninfo'' 2 10))
   \<and> with_enter (sample_world\<lparr>with_exit := Some (PsycopgError ''commit failed'')\<rparr>) = None
   \<and> cursor_execute (sample_world\<lparr>with_exit := Some (PsycopgError ''commit failed'')\<rparr>) = None
   \<and> Execute (Select_orders ''mma'') [''acme'']
        \<in> set (performed connected_state
                (snd (get_retailer_orders
                        (sample_world\<lparr>with_exit := Some (PsycopgError ''commit failed'')\<rparr>)
                        connected_state '' acme '')))
   \<and> length (select_orders (sample_world\<lparr>with_exit := Some (PsycopgError ''commit failed'')\<rparr>)
               ''mma'' ''acme'') = 4
   \<and> fst (get_retailer_orders
            (sample_world\<lparr>with_exit := Some (PsycopgError ''commit failed'')\<rparr>)
            connected_state '' acme '') = []"
proof -
  let ?w = "sample_world\<lparr>with_exit := Some (PsycopgError ''commit failed'')\<rparr>"
  have e: "with_enter ?w = None" "cursor_execute ?w = None"
      "with_exit ?w = Some (PsycopgError ''commit failed'')"
    by (simp_all add: sample_world_def)
  have s: "getenv_default (perform (Pool_connection (ConnectionPool ''conninfo'' 2 10))
                             connected_state) ''PGSCHEMA'' ''mma'' = ''mma''"
    by (simp add: getenv_default_def perform_def connected_state_def initial_state_def
          sample_environ_def)
  have t: "str_strip sample_world '' acme '' = ''acme''"
    by (simp add: sample_world_def ascii_strip_def ascii_space_def)
  have g: "get_retailer_orders ?w connected_state '' acme ''
             = ([], perform (Execute (Select_orders ''mma'') [''acme''])
                      (perform (Pool_connection (ConnectionPool ''conninfo'' 2 10))
                         connected_state))"
    by (simp add: get_retailer_orders_cases sample_connection_exit e s t)
  have r: "length (select_orders ?w ''mma'' ''acme'') = 4"
    by (simp add: select_orders_def sample_world_def sample_orders_def)
  show ?thesis
    using e(1,2) r by (simp add: g sample_connection_exit performed_def)
qed

text \<open>
  C7, amended: when \<open>get_retailer_orders\<close> fetches the rows \<open>results\<close> and leaving the
  \<open>with\<close> blocks raises nothing, it returns as many orders as rows, and the order at each
  position has the four columns of the row at that position as its \<open>order_id\<close>,
  \<open>order_date\<close>, \<open>device_name\<close> and \<open>quantity\<close>. When leaving the \<open>with\<close> blocks raises, the
  fetched rows are given up and the empty list is returned.
\<close>

theorem orders_verbatim:
  assumes "get_connection w st = (Some conn, st1)"
    and "with_enter w = None" and "cursor_execute w = None"
    and "results = select_orders w (getenv_default st1 ''PGSCHEMA'' ''mma'')
                     (str_strip w retailer_name)"
    and "orders = fst (get_retailer_orders w st retailer_name)"
  shows "(with_exit w = None \<longrightarrow>
          length orders = length results
          \<and> (\<forall>i < length results.
                results ! i = (order_id (orders ! i), order_date (orders ! i),
                               device_name (orders ! i), quantity (orders ! i))))
     \<and> (with_exit w \<noteq> None \<longrightarrow> orders = [])"
proof -
  have left: "with_exit w \<noteq> None \<Longrightarrow> orders = []"
    using assms by (auto simp add: get_retailer_orders_cases)
  have "with_exit w = None \<Longrightarrow> orders = map row_to_order results"
    using assms by (simp add: get_retailer_orders_cases)
  then have kept: "with_exit w = None \<Longrightarrow>
      length orders = length results
      \<and> (\<forall>i < length results.
            results ! i = (order_id (orders ! i), order_date (orders ! i),
                           device_name (orders ! i), quantity (orders ! i)))"
    by (auto simp add: row_to_order_def split: prod.splits)
  show ?thesis using left kept by blast
qed

theorem orders_verbatim_witness:
  "with_exit sample_world = None
   \<and> length (fst (get_retailer_orders sample_world connected_state '' acme '')) = 4
   \<and> order_id (fst (get_retailer_orders sample_world connected_state '' acme '') ! 1) = PInt 2
   \<and> order_date (fst (get_retailer_orders sample_world connected_state '' acme '') ! 1)
        = PDate 20001
   \<and> device_name (fst (get_retailer_orders sample_world connected_state '' acme '') ! 1) = None
   \<and> quantity (fst (get_retailer_orders sample_world connected_state '' acme '') ! 1) = PInt 1"
proof -
  have e: "with_enter sample_world = None" "cursor_execute sample_world = None"
    by (simp_all add: sample_world_def)
  have x: "with_exit sample_world = None"
    by (simp add: sample_world_def)
  have r: "sample_orders = select_orders sample_world
             (getenv_default (perform (Pool_connection (ConnectionPool ''conninfo'' 2 10))
                                connected_state) ''PGSCHEMA'' ''mma'')
             (str_strip sample_world '' acme '')"
    by (simp add: select_orders_def sample_world_def sample_orders_def ascii_strip_def
          ascii_space_def)
  note verbatim = orders_verbatim [OF sample_connection e r refl]
  have len: "length (fst (get_retailer_orders sample_world connected_state '' acme '')) = 4"
    using verbatim x by (simp add: sample_orders_def)
  have "1 < length sample_orders" by (simp add: sample_orders_def)
  then have "sample_orders ! 1 =
             (order_id (fst (get_retailer_orders sample_world connected_state '' acme '') ! 1),
              order_date (fst (get_retailer_orders sample_world connected_state '' acme '') ! 1),
              device_name (fst (get_retailer_orders sample_world connected_state '' acme '') ! 1),
              quantity (fst (get_retailer_orders sample_world connected_state '' acme '') ! 1))"
    using verbatim x by blast
  then show ?thesis using len x
    by (simp add: sample_orders_def)
qed

subsection \<open>C4: a failed query gives an empty result\<close>

text \<open>
  C4: when entering the connection or the cursor, executing or fetching, or leaving the
  \<open>with\<close> blocks raises a \<open>psycopg.Error\<close> or any other exception \<open>e\<close>,
  \<open>get_retailer_orders\<close> returns the empty list and \<open>get_device_adverse_events\<close> the empty
  dict. Neither sends more than one statement to the database in a call, and every
  exception that leaves the \<open>try\<close> block of either is turned into the empty result by its
  handlers.
\<close>

theorem query_errors_give_empty:
  assumes "with_enter w = Some e \<or> cursor_execute w = Some e \<or> with_exit w = Some e"
  shows "fst (get_retailer_orders w st retailer_name) = []
     \<and> fst (get_device_adverse_events w st device_names) = []
     \<and> length (filter is_execute (performed st (snd (get_retailer_orders w st retailer_name)))) \<le> 1
     \<and> length (filter is_execute
                 (performed st (snd (get_device_adverse_events w st device_names)))) \<le> 1
     \<and> (\<forall>x. fst (get_retailer_orders_try w st retailer_name) = Inl x \<longrightarrow>
              get_retailer_orders w st retailer_name
                = ([], snd (get_retailer_orders_try w st retailer_name)))
     \<and> (\<forall>x. fst (get_device_adverse_events_try w st device_names) = Inl x \<longrightarrow>
              get_device_adverse_events w st device_names
                = ([], if device_names = [] then st
                       else snd (get_device_adverse_events_try w st device_names)))"
proof -
  have a: "fst (get_retailer_orders w st retailer_name) = []"
    using assms
    by (auto simp add: get_retailer_orders_cases split: prod.splits option.splits)
  have b: "fst (get_device_adverse_events w st device_names) = []"
    using assms
    by (auto simp add: get_device_adverse_events_cases split: prod.splits option.splits)
  have c: "length (filter is_execute
             (performed st (snd (get_retailer_orders w st retailer_name)))) \<le> 1"
    using get_retailer_orders_effects [of st w retailer_name]
    by (auto simp add: no_execute_filter)
  have d: "length (filter is_execute
             (performed st (snd (get_device_adverse_events w st device_names)))) \<le> 1"
    using get_device_adverse_events_effects [of st w device_names]
    by (auto simp add: no_execute_filter)
  have f: "\<forall>x. fst (get_retailer_orders_try w st retailer_name) = Inl x \<longrightarrow>
              get_retailer_orders w st retailer_name
                = ([], snd (get_retailer_orders_try w st retailer_name))"
    by (auto simp add: get_retailer_orders_def split: prod.splits sum.splits exn.splits)
  have g: "\<forall>x. fst (get_device_adverse_events_try w st device_names) = Inl x \<longrightarrow>
              get_device_adverse_events w st device_names
                = ([], if device_names = [] then st
                       else snd (get_device_adverse_events_try w st device_names))"
    by (auto simp add: get_device_adverse_events_def split: prod.splits sum.splits exn.splits)
  show ?thesis using a b c d f g by blast
qed

theorem query_errors_give_empty_witness:
  "fst (get_retailer_orders (sample_world\<lparr>cursor_execute := Some (PsycopgError ''timeout'')\<rparr>)
          connected_state ''acme'') = []
   \<and> fst (get_device_adverse_events
            (sample_world\<lparr>cursor_execute := Some (PsycopgError ''timeout'')\<rparr>)
            connected_state [''Drill'']) = []
   \<and> fst (get_retailer_orders_try
            (sample_world\<lparr>cursor_execute := Some (PsycopgError ''timeout'')\<rparr>)
            connected_state ''acme'') = Inl (PsycopgError ''timeout'')
   \<and> fst (get_retailer_orders
            (sample_world\<lparr>with_exit := Some (OtherException ''lost'')\<rparr>)
            connected_state ''acme'') = []"
proof -
  have h: "with_enter (sample_world\<lparr>cursor_execute := Some (PsycopgError ''timeout'')\<rparr>)
             = Some (PsycopgError ''timeout'')
         \<or> cursor_execute (sample_world\<lparr>cursor_execute := Some (PsycopgError ''timeout'')\<rparr>)
             = Some (PsycopgError ''timeout'')
         \<or> with_exit (sample_world\<lparr>cursor_execute := Some (PsycopgError ''timeout'')\<rparr>)
             = Some (PsycopgError ''timeout'')"
    by simp
  have h': "with_enter (sample_world\<lparr>with_exit := Some (OtherException ''lost'')\<rparr>)
             = Some (OtherException ''lost'')
         \<or> cursor_execute (sample_world\<lparr>with_exit := Some (OtherException ''lost'')\<rparr>)
             = Some (OtherException ''lost'')
         \<or> with_exit (sample_world\<lparr>with_exit := Some (OtherException ''lost'')\<rparr>)
             = Some (OtherException ''lost'')"
    by simp
  have t: "fst (get_retailer_orders_try
            (sample_world\<lparr>cursor_execute := Some (PsycopgError ''timeout'')\<rparr>)
            connected_state ''acme'') = Inl (PsycopgError ''timeout'')"
    by (simp add: get_retailer_orders_try_def get_connection_def discard_expired_pool_def
          token_expired_def get_connection_pool_def connected_state_def initial_state_def
          sample_world_def Let_def)
  show ?thesis
    using query_errors_give_empty [OF h, of connected_state "''acme''" "[''Drill'']"]
      query_errors_give_empty [OF h', of connected_state "''acme''" "[]"] t
    by blast
qed

subsection \<open>C5: the analysis fails by value\<close>



subsection \<open>C6: adverse events belong to the ordered devices\<close>

text \<open>
  C6: every key of the mapping \<open>load_adverse_events\<close> returns is the \<open>device_name\<close> of an
  order of the orders data it was given, and the parameters of a statement it sends are
  distinct device names of those orders.
\<close>

theorem adverse_events_of_ordered_devices:
  "(\<forall>k \<in> fst ` set (fst (load_adverse_events w st orders_data)).
       \<exists>orders order. orders_data = Some orders \<and> order \<in> set orders \<and> device_name order = k)
   \<and> (\<forall>s ps. Execute s ps \<in> set (performed st (snd (load_adverse_events w st orders_data))) \<longrightarrow>
         distinct ps
         \<and> (\<forall>n \<in> set ps. \<exists>orders order.
                orders_data = Some orders \<and> order \<in> set orders \<and> device_name order = Some n))"
proof (cases orders_data)
  case None
  then show ?thesis by (simp add: load_adverse_events_def)
next
  case (Some orders)
  let ?names = "get_unique_device_names w orders"
  have names: "distinct ?names"
      "\<And>n. n \<in> set ?names \<Longrightarrow> \<exists>order \<in> set orders. device_name order = Some n"
    using unique_names_aux [of w orders] by blast+
  have l: "load_adverse_events w st orders_data = get_device_adverse_events w st ?names"
  proof (cases "orders = []")
    case True
    then show ?thesis using Some
      by (simp add: load_adverse_events_def get_unique_device_names_def
            get_device_adverse_events_def)
  next
    case False
    then show ?thesis using Some by (simp add: load_adverse_events_def)
  qed
  have keys: "\<forall>k \<in> fst ` set (fst (get_device_adverse_events w st ?names)).
                 \<exists>n \<in> set (take 1000 ?names). k = Some n"
  proof
    fix k
    assume k: "k \<in> fst ` set (fst (get_device_adverse_events w st ?names))"
    from get_device_adverse_events_result [of w st ?names]
    show "\<exists>n \<in> set (take 1000 ?names). k = Some n"
    proof
      assume "fst (get_device_adverse_events w st ?names) = []"
      with k show ?thesis by simp
    next
      assume "\<exists>schema. fst (get_device_adverse_events w st ?names)
                   = events_loop (select_adverse_events w schema (take 1000 ?names))"
      then obtain schema where "fst (get_device_adverse_events w st ?names)
                   = events_loop (select_adverse_events w schema (take 1000 ?names))"
        by blast
      with k have "k \<in> fst ` set (select_adverse_events w schema (take 1000 ?names))"
        by (simp add: events_loop_keys)
      then show ?thesis by (rule select_adverse_events_keys)
    qed
  qed
  have params: "\<forall>s ps. Execute s ps \<in> set (performed st (snd (get_device_adverse_events w st ?names)))
                  \<longrightarrow> ps = take 1000 ?names"
    using get_device_adverse_events_effects [of st w ?names] by auto
  have sub: "\<And>n. n \<in> set (take 1000 ?names) \<Longrightarrow>
                \<exists>order \<in> set orders. device_name order = Some n"
    using names(2) by (blast dest: in_set_takeD)
  show ?thesis
    unfolding l using keys params sub names(1) Some
    by (metis distinct_take)
qed

theorem adverse_events_of_ordered_devices_witness:
  "Some ''Drill'' \<in> fst ` set (fst (load_adverse_events sample_world connected_state
                                      (Some (map row_to_order sample_orders))))
   \<and> (\<exists>orders order. Some (map row_to_order sample_orders) = Some orders
          \<and> order \<in> set orders \<and> device_name order = Some ''Drill'')"
proof -
  have v: "get_unique_device_names sample_world (map row_to_order sample_orders)
             = [''Drill'', ''Scaler'']"
    by (simp add: get_unique_device_names_def sample_orders_def row_to_order_def
          sample_world_def)
  have e: "with_enter sample_world = None" "cursor_execute sample_world = None"
      "with_exit sample_world = None"
    by (simp_all add: sample_world_def)
  have n: "map row_to_order sample_orders \<noteq> []"
    by (simp add: sample_orders_def)
  have "fst (load_adverse_events sample_world connected_state
               (Some (map row_to_order sample_orders)))
        = events_loop (select_adverse_events sample_world
            (getenv_default (perform (Pool_connection (ConnectionPool ''conninfo'' 2 10))
                               connected_state) ''PGSCHEMA'' ''mma'')
            (take 1000 [''Drill'', ''Scaler'']))"
    using n by (simp add: load_adverse_events_def v get_device_adverse_events_cases
                  sample_connection e)
  then have k: "Some ''Drill'' \<in> fst ` set (fst (load_adverse_events sample_world connected_state
                                      (Some (map row_to_order sample_orders))))"
    by (simp add: events_loop_keys select_adverse_events_def sample_world_def sample_events_def)
  show ?thesis
    using adverse_events_of_ordered_devices [of sample_world connected_state
            "Some (map row_to_order sample_orders)"] k
    by blast
qed

subsection \<open>C8: the caps on the results\<close>

text \<open>
  C8: \<open>get_retailer_orders\<close> returns at most 100 orders: the one statement it sends is
  \<open>Select_orders\<close>, whose answer \<open>LIMIT 100\<close> bounds. A statement sent by
  \<open>get_device_adverse_events\<close> has the first 1000 device names as its parameters, and the
  call does the same as a call with the first 1000 names alone.
\<close>

theorem result_caps:
  "length (fst (get_retailer_orders w st retailer_name)) \<le> 100
   \<and> (\<forall>s ps. Execute s ps \<in> set (performed st (snd (get_retailer_orders w st retailer_name)))
         \<longrightarrow> (\<exists>schema. s = Select_orders schema) \<and> ps = [str_strip w retailer_name])
   \<and> (\<forall>schema p. length (select_orders w schema p) \<le> 100)
   \<and> (\<forall>s ps. Execute s ps
               \<in> set (performed st (snd (get_device_adverse_events w st device_names)))
         \<longrightarrow> ps = take 1000 device_names \<and> length ps \<le> 1000
             \<and> (\<exists>schema. s = Select_adverse_events schema (length ps)))
   \<and> get_device_adverse_events w st device_names
       = get_device_adverse_events w st (take 1000 device_names)"
proof -
  have a: "length (fst (get_retailer_orders w st retailer_name)) \<le> 100"
    by (auto simp add: get_retailer_orders_cases select_orders_def
             split: prod.splits option.splits)
  have b: "\<forall>s ps. Execute s ps \<in> set (performed st (snd (get_retailer_orders w st retailer_name)))
         \<longrightarrow> (\<exists>schema. s = Select_orders schema) \<and> ps = [str_strip w retailer_name]"
    using get_retailer_orders_effects [of st w retailer_name] by auto
  have c: "\<forall>s ps. Execute s ps
               \<in> set (performed st (snd (get_device_adverse_events w st device_names)))
         \<longrightarrow> ps = take 1000 device_names \<and> length ps \<le> 1000
             \<and> (\<exists>schema. s = Select_adverse_events schema (length ps))"
    using get_device_adverse_events_effects [of st w device_names] by auto
  have d: "get_device_adverse_events w st device_names
       = get_device_adverse_events w st (take 1000 device_names)"
  proof -
    have t: "take 1000 (take 1000 device_names) = take 1000 device_names" by simp
    have n: "take 1000 device_names = [] \<longleftrightarrow> device_names = []"
      by simp
    show ?thesis
      unfolding get_device_adverse_events_cases [of w st device_names]
        get_device_adverse_events_cases [of w st "take 1000 device_names"] t n ..
  qed
  have e: "\<forall>schema p. length (select_orders w schema p) \<le> 100"
    by (simp add: select_orders_def)
  show ?thesis
    by (rule conjI [OF a conjI [OF b conjI [OF e conjI [OF c d]]]])
qed

theorem result_caps_witness:
  "Execute (Select_adverse_events ''mma'' 1000) (replicate 1000 ''Drill'')
     \<in> set (performed connected_state
             (snd (get_device_adverse_events sample_world connected_state
                     (replicate 1001 ''Drill''))))
   \<and> replicate 1000 ''Drill'' = take 1000 (replicate 1001 ''Drill'')
   \<and> length (replicate 1000 ''Drill'') \<le> 1000
   \<and> length (fst (get_retailer_orders
                    (sample_world\<lparr>orders_matching :=
                       (\<lambda>schema p. replicate 150 (PInt 1, PDate 2, Some ''Drill'', PInt 3))\<rparr>)
                    connected_state ''acme'')) \<le> 100"
proof -
  have h: "Execute (Select_adverse_events ''mma'' 1000) (replicate 1000 ''Drill'')
     \<in> set (performed connected_state
             (snd (get_device_adverse_events sample_world connected_state
                     (replicate 1001 ''Drill''))))"
  proof -
    have e: "with_enter sample_world = None" "cursor_execute sample_world = None"
      by (simp_all add: sample_world_def)
    have s: "getenv_default (perform (Pool_connection (ConnectionPool ''conninfo'' 2 10))
                               connected_state) ''PGSCHEMA'' ''mma'' = ''mma''"
      by (simp add: getenv_default_def perform_def connected_state_def initial_state_def
            sample_environ_def)
    have "snd (get_device_adverse_events sample_world connected_state
                 (replicate 1001 ''Drill''))
          = perform (Execute (Select_adverse_events ''mma'' 1000) (replicate 1000 ''Drill''))
              (perform (Pool_connection (ConnectionPool ''conninfo'' 2 10)) connected_state)"
      by (simp add: get_device_adverse_events_cases sample_connection e s)
    then show ?thesis
      by (simp add: performed_def)
  qed
  note caps = result_caps [of sample_world connected_state "''acme''" "replicate 1001 ''Drill''"]
  have a: "replicate 1000 ''Drill'' = take 1000 (replicate 1001 ''Drill'')
           \<and> length (replicate 1000 ''Drill'') \<le> 1000"
    using caps h by blast
  have b: "length (fst (get_retailer_orders
                    (sample_world\<lparr>orders_matching :=
                       (\<lambda>schema p. replicate 150 (PInt 1, PDate 2, Some ''Drill'', PInt 3))\<rparr>)
                    connected_state ''acme'')) \<le> 100"
    using result_caps [of "sample_world\<lparr>orders_matching :=
                       (\<lambda>schema p. replicate 150 (PInt 1, PDate 2, Some ''Drill'', PInt 3))\<rparr>"
                     connected_state "''acme''" "[]"]
    by blast
  show ?thesis using h a b by blast
qed

subsection \<open>C9: unique device names\<close>

text \<open>
  C9: the list \<open>get_unique_device_names\<close> returns has no element twice; each of its
  elements is a non-empty \<open>device_name\<close> of an order of the input, and every non-empty
  \<open>device_name\<close> of an order of the input is in it. \<open>None\<close> and the empty string are not.
\<close>

theorem unique_device_names:
  "distinct (get_unique_device_names w orders)
   \<and> (\<forall>n \<in> set (get_unique_device_names w orders).
         n \<noteq> [] \<and> (\<exists>order \<in> set orders. device_name order = Some n))
   \<and> (\<forall>order \<in> set orders. \<forall>n. device_name order = Some n \<and> n \<noteq> [] \<longrightarrow>
         n \<in> set (get_unique_device_names w orders))"
  by (auto simp add: get_unique_device_names_def truthy_device_names_set)

theorem unique_device_names_witness:
  "get_unique_device_names sample_world (map row_to_order sample_orders) = [''Drill'', ''Scaler'']
   \<and> row_to_order (PInt 4, PDate 20003, Some ''Scaler'', PInt 2)
        \<in> set (map row_to_order sample_orders)
   \<and> ''Scaler'' \<in> set (get_unique_device_names sample_world (map row_to_order sample_orders))
   \<and> distinct (get_unique_device_names sample_world (map row_to_order sample_orders))"
proof -
  have v: "get_unique_device_names sample_world (map row_to_order sample_orders)
             = [''Drill'', ''Scaler'']"
    by (simp add: get_unique_device_names_def sample_orders_def row_to_order_def
          sample_world_def)
  have m: "row_to_order (PInt 4, PDate 20003, Some ''Scaler'', PInt 2)
        \<in> set (map row_to_order sample_orders)"
    by (simp add: sample_orders_def)
  have d: "device_name (row_to_order (PInt 4, PDate 20003, Some ''Scaler'', PInt 2))
             = Some ''Scaler'' \<and> ''Scaler'' \<noteq> []"
    by (simp add: row_to_order_def)
  show ?thesis
    using unique_device_names [of sample_world "map row_to_order sample_orders"] v m d
    by blast
qed

subsection \<open>C10: the selected event is in bounds\<close>

text \<open>
  C10: for a selection that is \<open>None\<close> or a value of a dropdown (lines 551 to 562 give
  the options the positions 0, 1, ...), \<open>display_adverse_event_details\<close> raises no
  \<open>IndexError\<close>. It returns the empty component when the selection is \<open>None\<close>, the mapping
  is absent or empty, the device has no entry, or the index is at least the number of the
  device's events; otherwise it renders the event at that index.
\<close>

theorem details_in_bounds:
  assumes "\<forall>i. selected_event_index = Some i \<longrightarrow> (\<exists>events. i \<in> set (dropdown_values events))"
  shows "display_adverse_event_details selected_event_index adverse_events_data device
           \<noteq> Inl IndexError
     \<and> (selected_event_index = None \<or> adverse_events_data = None \<or> adverse_events_data = Some []
        \<or> (\<exists>d. adverse_events_data = Some d \<and> map_of d (Some device) = None)
        \<or> (\<exists>i d events. selected_event_index = Some i \<and> adverse_events_data = Some d
              \<and> map_of d (Some device) = Some events \<and> i \<ge> int (length events))
        \<longrightarrow> display_adverse_event_details selected_event_index adverse_events_data device
              = Inr No_details)
     \<and> (\<forall>i d events. selected_event_index = Some i \<and> adverse_events_data = Some d
              \<and> map_of d (Some device) = Some events \<and> i < int (length events)
        \<longrightarrow> display_adverse_event_details selected_event_index adverse_events_data device
              = Inr (render_event (events ! nat i)))"
proof (cases selected_event_index)
  case None
  then show ?thesis by (simp add: display_adverse_event_details_def)
next
  case (Some i)
  then have i: "0 \<le> i" using assms by (auto simp add: dropdown_values_def)
  show ?thesis
  proof (cases adverse_events_data)
    case None
    then show ?thesis using Some by (simp add: display_adverse_event_details_def)
  next
    case d: (Some d)
    show ?thesis
    proof (cases "map_of d (Some device)")
      case None
      then show ?thesis using Some d i
        by (simp add: display_adverse_event_details_def dict_get_def)
    next
      case events: (Some events)
      then have "d \<noteq> []" by auto
      then show ?thesis using Some d i events
        by (simp add: display_adverse_event_details_def dict_get_def subscript_def)
    qed
  qed
qed

theorem details_in_bounds_witness:
  "1 \<in> set (dropdown_values (dict_get (events_loop sample_events) ''Drill''))
   \<and> display_adverse_event_details (Some 1) (Some (events_loop sample_events)) ''Drill''
       = Inr (Details \<lparr>event_date = PDate 20008, adverse_event_description = PStr ''stalls'',
                        severity_level = PStr ''Medium''\<rparr> Medium_style)
   \<and> display_adverse_event_details (Some 2) (Some (events_loop sample_events)) ''Drill''
       = Inr No_details"
proof -
  have m: "map_of (events_loop sample_events) (Some ''Drill'')
             = Some [\<lparr>event_date = PDate 20010, adverse_event_description = PStr ''overheats'',
                       severity_level = PStr ''High''\<rparr>,
                     \<lparr>event_date = PDate 20008, adverse_event_description = PStr ''stalls'',
                       severity_level = PStr ''Medium''\<rparr>]"
    by (simp add: events_loop_map_of sample_events_def row_to_event_def)
  have v: "1 \<in> set (dropdown_values (dict_get (events_loop sample_events) ''Drill''))"
       "2 \<in> set (dropdown_values [undefined, undefined, undefined])"
    by (simp_all add: dict_get_def m dropdown_values_def upt_rec)
  have h1: "\<forall>i. Some (1::int) = Some i \<longrightarrow> (\<exists>events. i \<in> set (dropdown_values events))"
    using v(1) by auto
  have h2: "\<forall>i. Some (2::int) = Some i \<longrightarrow> (\<exists>events. i \<in> set (dropdown_values events))"
    using v(2) by auto
  have a: "display_adverse_event_details (Some 1) (Some (events_loop sample_events)) ''Drill''
             = Inr (render_event ([\<lparr>event_date = PDate 20010,
                        adverse_event_description = PStr ''overheats'',
                        severity_level = PStr ''High''\<rparr>,
                     \<lparr>event_date = PDate 20008, adverse_event_description = PStr ''stalls'',
                       severity_level = PStr ''Medium''\<rparr>] ! nat 1))"
    using details_in_bounds [OF h1, of "Some (events_loop sample_events)" "''Drill''"] m
    by simp
  have b: "display_adverse_event_details (Some 2) (Some (events_loop sample_events)) ''Drill''
             = Inr No_details"
    using details_in_bounds [OF h2, of "Some (events_loop sample_events)" "''Drill''"] m
    by simp
  show ?thesis using v(1) a b
    by (simp add: render_event_def severity_style_of_def)
qed

end
